theory Spec2Isabelle
  imports Complex_Main
begin

section \<open>The ledger of the grocery shop: data model\<close>

text \<open>
  The server (\<^verbatim>\<open>src/server.ts\<close>) keeps five SQLite tables and runs every business
  operation as a short list of prepared statements inside \<^verbatim>\<open>db.transaction\<close>.
  A table is modelled as the list of its rows in rowid order, a row as a record whose
  fields are the columns of the \<^verbatim>\<open>CREATE TABLE\<close> statement.

  Conventions of the model:
  \<^item> \<^verbatim>\<open>INTEGER\<close> keys are \<open>int\<close>; a nullable foreign key that the handlers do write
    as \<^verbatim>\<open>NULL\<close> (\<^verbatim>\<open>withdrawals.product_id\<close>, \<^verbatim>\<open>stock_arrivals.product_id\<close>) is an
    \<open>int option\<close>. Rows of \<^verbatim>\<open>sale_items\<close> are written by one statement only, which binds
    the fresh sale id and the id of a product it has just selected, so both of its keys
    are plain \<open>int\<close>.
  \<^item> \<^verbatim>\<open>REAL\<close> columns and JavaScript numbers are \<open>real\<close>: arithmetic is exact, the
    rounding of IEEE doubles is outside the model. The numeric fields are numbers, as
    the interfaces \<^verbatim>\<open>Product\<close> and \<^verbatim>\<open>SaleItem\<close> of the client declare them.
  \<^item> \<^verbatim>\<open>created_at\<close> is the number of seconds since the epoch (UTC, as both
    \<^verbatim>\<open>CURRENT_TIMESTAMP\<close> and \<^verbatim>\<open>toISOString\<close> are); the clock is an argument \<open>now\<close>.
  \<^item> \<^verbatim>\<open>AUTOINCREMENT\<close> is the table \<^verbatim>\<open>sqlite_sequence\<close>: one counter for each table
    the handlers insert into.
\<close>

record product =
  p_id :: int
  p_name :: string
  p_unit_type :: string
  p_cost_price :: real
  p_selling_price :: real
  p_quantity :: real
  p_min_stock :: real

record sale =
  s_id :: int
  s_total_amount :: real
  s_total_profit :: real
  s_created_at :: nat

record sale_item =
  si_id :: int
  si_sale_id :: int
  si_product_id :: int
  si_quantity :: real
  si_unit_price :: real
  si_cost_price :: real
  si_profit :: real

record withdrawal =
  w_id :: int
  w_type :: string
  w_product_id :: "int option"
  w_amount :: real
  w_description :: string
  w_created_at :: nat

record stock_arrival =
  sa_id :: int
  sa_product_id :: "int option"
  sa_quantity :: real
  sa_cost_price :: real
  sa_created_at :: nat

record db =
  products :: "product list"
  sales :: "sale list"
  sale_items :: "sale_item list"
  withdrawals :: "withdrawal list"
  stock_arrivals :: "stock_arrival list"
  seq_sales :: int
  seq_sale_items :: int
  seq_withdrawals :: int
  seq_stock_arrivals :: int

text \<open>What a statement or the JavaScript around it can throw inside a transaction.\<close>

datatype error =
  ForeignKeyConstraintFailed
  | TypeError

text \<open>The bodies of the requests (\<^verbatim>\<open>req.body\<close>).\<close>

record sale_line =
  item_product_id :: int
  item_quantity :: real
  item_selling_price :: real

record withdrawal_req =
  wr_type :: string
  wr_product_id :: "int option"
  wr_amount :: real
  wr_description :: string

record arrival_req =
  ar_product_id :: "int option"
  ar_quantity :: real
  ar_cost_price :: real

section \<open>Statements\<close>

text \<open>
  The rowid of an \<^verbatim>\<open>AUTOINCREMENT\<close> insert: one more than the largest rowid the table
  has ever held.
\<close>

definition next_rowid :: "int \<Rightarrow> int list \<Rightarrow> int" where
  "next_rowid seq ids = max seq (fold max ids 0) + 1"

text \<open>The parent rows a foreign key looks for (\<^verbatim>\<open>PRAGMA foreign_keys = ON\<close>).\<close>

definition product_exists :: "db \<Rightarrow> int \<Rightarrow> bool" where
  "product_exists d pid = (pid \<in> set (map p_id (products d)))"

definition sale_exists :: "db \<Rightarrow> int \<Rightarrow> bool" where
  "sale_exists d sid = (sid \<in> set (map s_id (sales d)))"

text \<open>\<^verbatim>\<open>SELECT * FROM products WHERE id = ?\<close>, \<^verbatim>\<open>.get\<close>: the first row or \<^verbatim>\<open>undefined\<close>.\<close>

definition select_product :: "db \<Rightarrow> int \<Rightarrow> product option" where
  "select_product d pid = find (\<lambda>p. p_id p = pid) (products d)"

text \<open>\<^verbatim>\<open>INSERT INTO sales (total_amount, total_profit) VALUES (0, 0)\<close>; returns
  \<^verbatim>\<open>lastInsertRowid\<close>.\<close>

definition insert_sale :: "nat \<Rightarrow> db \<Rightarrow> int \<times> db" where
  "insert_sale now d =
     (let rowid = next_rowid (seq_sales d) (map s_id (sales d)) in
      (rowid,
       d\<lparr>sales := sales d @
            [\<lparr>s_id = rowid, s_total_amount = 0, s_total_profit = 0, s_created_at = now\<rparr>],
         seq_sales := rowid\<rparr>))"

text \<open>\<^verbatim>\<open>INSERT INTO sale_items (sale_id, product_id, quantity, unit_price, cost_price,
  profit) VALUES (?, ?, ?, ?, ?, ?)\<close>: both foreign keys are checked.\<close>

definition insert_sale_item ::
  "int \<Rightarrow> int \<Rightarrow> real \<Rightarrow> real \<Rightarrow> real \<Rightarrow> real \<Rightarrow> db \<Rightarrow> error + db" where
  "insert_sale_item sale_id product_id quantity unit_price cost_price profit d =
     (if sale_exists d sale_id \<and> product_exists d product_id then
        (let rowid = next_rowid (seq_sale_items d) (map si_id (sale_items d)) in
         Inr (d\<lparr>sale_items := sale_items d @
                  [\<lparr>si_id = rowid, si_sale_id = sale_id, si_product_id = product_id,
                    si_quantity = quantity, si_unit_price = unit_price,
                    si_cost_price = cost_price, si_profit = profit\<rparr>],
                seq_sale_items := rowid\<rparr>))
      else Inl ForeignKeyConstraintFailed)"

text \<open>\<^verbatim>\<open>UPDATE products SET quantity = quantity - ? WHERE id = ?\<close> and its mirror
  \<^verbatim>\<open>quantity = quantity + ?\<close>.\<close>

definition update_quantity_minus :: "real \<Rightarrow> int \<Rightarrow> db \<Rightarrow> db" where
  "update_quantity_minus q pid d =
     d\<lparr>products :=
         map (\<lambda>p. if p_id p = pid then p\<lparr>p_quantity := p_quantity p - q\<rparr> else p) (products d)\<rparr>"

definition update_quantity_plus :: "real \<Rightarrow> int \<Rightarrow> db \<Rightarrow> db" where
  "update_quantity_plus q pid d =
     d\<lparr>products :=
         map (\<lambda>p. if p_id p = pid then p\<lparr>p_quantity := p_quantity p + q\<rparr> else p) (products d)\<rparr>"

text \<open>\<^verbatim>\<open>UPDATE sales SET total_amount = ?, total_profit = ? WHERE id = ?\<close>.\<close>

definition update_sale_totals :: "real \<Rightarrow> real \<Rightarrow> int \<Rightarrow> db \<Rightarrow> db" where
  "update_sale_totals total_amount total_profit sid d =
     d\<lparr>sales :=
         map (\<lambda>s. if s_id s = sid
                  then s\<lparr>s_total_amount := total_amount, s_total_profit := total_profit\<rparr>
                  else s) (sales d)\<rparr>"

text \<open>\<^verbatim>\<open>INSERT INTO withdrawals (type, product_id, amount, description) VALUES (?, ?, ?, ?)\<close>:
  a product id that is not \<^verbatim>\<open>NULL\<close> must name a product.\<close>

definition insert_withdrawal ::
  "nat \<Rightarrow> string \<Rightarrow> int option \<Rightarrow> real \<Rightarrow> string \<Rightarrow> db \<Rightarrow> error + db" where
  "insert_withdrawal now type pid amount description d =
     (if (case pid of None \<Rightarrow> True | Some p \<Rightarrow> product_exists d p) then
        (let rowid = next_rowid (seq_withdrawals d) (map w_id (withdrawals d)) in
         Inr (d\<lparr>withdrawals := withdrawals d @
                  [\<lparr>w_id = rowid, w_type = type, w_product_id = pid, w_amount = amount,
                    w_description = description, w_created_at = now\<rparr>],
                seq_withdrawals := rowid\<rparr>))
      else Inl ForeignKeyConstraintFailed)"

text \<open>\<^verbatim>\<open>INSERT INTO stock_arrivals (product_id, quantity, cost_price) VALUES (?, ?, ?)\<close>.\<close>

definition insert_stock_arrival ::
  "nat \<Rightarrow> int option \<Rightarrow> real \<Rightarrow> real \<Rightarrow> db \<Rightarrow> error + db" where
  "insert_stock_arrival now pid quantity cost_price d =
     (if (case pid of None \<Rightarrow> True | Some p \<Rightarrow> product_exists d p) then
        (let rowid = next_rowid (seq_stock_arrivals d) (map sa_id (stock_arrivals d)) in
         Inr (d\<lparr>stock_arrivals := stock_arrivals d @
                  [\<lparr>sa_id = rowid, sa_product_id = pid, sa_quantity = quantity,
                    sa_cost_price = cost_price, sa_created_at = now\<rparr>],
                seq_stock_arrivals := rowid\<rparr>))
      else Inl ForeignKeyConstraintFailed)"

text \<open>\<^verbatim>\<open>UPDATE products SET quantity = quantity + ?, cost_price = ? WHERE id = ?\<close>; a
  \<^verbatim>\<open>NULL\<close> id matches no row.\<close>

definition update_arrival :: "real \<Rightarrow> real \<Rightarrow> int option \<Rightarrow> db \<Rightarrow> db" where
  "update_arrival quantity cost_price pid d =
     d\<lparr>products :=
         map (\<lambda>p. if Some (p_id p) = pid
                  then p\<lparr>p_quantity := p_quantity p + quantity, p_cost_price := cost_price\<rparr>
                  else p) (products d)\<rparr>"



text \<open>\<^verbatim>\<open>SELECT * FROM withdrawals WHERE id = ?\<close> and \<^verbatim>\<open>DELETE FROM withdrawals WHERE
  id = ?\<close>; the same pair for \<^verbatim>\<open>stock_arrivals\<close>.\<close>

definition select_withdrawal :: "db \<Rightarrow> int \<Rightarrow> withdrawal option" where
  "select_withdrawal d wid = find (\<lambda>w. w_id w = wid) (withdrawals d)"

definition delete_withdrawal_row :: "int \<Rightarrow> db \<Rightarrow> db" where
  "delete_withdrawal_row wid d =
     d\<lparr>withdrawals := filter (\<lambda>w. w_id w \<noteq> wid) (withdrawals d)\<rparr>"

definition select_stock_arrival :: "db \<Rightarrow> int \<Rightarrow> stock_arrival option" where
  "select_stock_arrival d aid = find (\<lambda>a. sa_id a = aid) (stock_arrivals d)"

definition delete_stock_arrival_row :: "int \<Rightarrow> db \<Rightarrow> db" where
  "delete_stock_arrival_row aid d =
     d\<lparr>stock_arrivals := filter (\<lambda>a. sa_id a \<noteq> aid) (stock_arrivals d)\<rparr>"

text \<open>The statements of the product deletion:
  \<^verbatim>\<open>DELETE FROM sale_items WHERE product_id = ?\<close>,
  \<^verbatim>\<open>DELETE FROM withdrawals WHERE product_id = ?\<close>,
  \<^verbatim>\<open>DELETE FROM stock_arrivals WHERE product_id = ?\<close>,
  \<^verbatim>\<open>DELETE FROM products WHERE id = ?\<close> (refused while a row of the three tables
  still refers to a product it would delete) and
  \<^verbatim>\<open>DELETE FROM sales WHERE id NOT IN (SELECT DISTINCT sale_id FROM sale_items)\<close>
  (the rows it removes are, by its own condition, referred to by no item).\<close>

definition delete_sale_items_of_product :: "int \<Rightarrow> db \<Rightarrow> db" where
  "delete_sale_items_of_product pid d =
     d\<lparr>sale_items := filter (\<lambda>si. si_product_id si \<noteq> pid) (sale_items d)\<rparr>"

definition delete_withdrawals_of_product :: "int \<Rightarrow> db \<Rightarrow> db" where
  "delete_withdrawals_of_product pid d =
     d\<lparr>withdrawals := filter (\<lambda>w. w_product_id w \<noteq> Some pid) (withdrawals d)\<rparr>"

definition delete_stock_arrivals_of_product :: "int \<Rightarrow> db \<Rightarrow> db" where
  "delete_stock_arrivals_of_product pid d =
     d\<lparr>stock_arrivals := filter (\<lambda>a. sa_product_id a \<noteq> Some pid) (stock_arrivals d)\<rparr>"

definition product_referenced :: "db \<Rightarrow> int \<Rightarrow> bool" where
  "product_referenced d pid =
     (pid \<in> set (map si_product_id (sale_items d))
      \<or> Some pid \<in> set (map w_product_id (withdrawals d))
      \<or> Some pid \<in> set (map sa_product_id (stock_arrivals d)))"

definition delete_product_row :: "int \<Rightarrow> db \<Rightarrow> error + db" where
  "delete_product_row pid d =
     (if product_exists d pid \<and> product_referenced d pid
      then Inl ForeignKeyConstraintFailed
      else Inr (d\<lparr>products := filter (\<lambda>p. p_id p \<noteq> pid) (products d)\<rparr>))"

definition delete_empty_sales :: "db \<Rightarrow> db" where
  "delete_empty_sales d =
     d\<lparr>sales := filter (\<lambda>s. s_id s \<in> set (map si_sale_id (sale_items d))) (sales d)\<rparr>"

section \<open>Transactions and handlers\<close>

text \<open>
  The function handed to \<^verbatim>\<open>db.transaction\<close> runs statement after statement on the open
  connection. Its model returns what it returned or threw, together with the state the
  connection had reached at that moment. \<^verbatim>\<open>db.transaction\<close> commits that state
  when the function returns and rolls back to the state at \<^verbatim>\<open>BEGIN\<close> when it throws;
  the handler's \<^verbatim>\<open>catch\<close> turns the exception into the HTTP 500 answer (\<open>Inl\<close>).
\<close>

definition transaction :: "(db \<Rightarrow> (error + 'a) \<times> db) \<Rightarrow> db \<Rightarrow> (error + 'a) \<times> db" where
  "transaction fn d =
     (case fn d of
        (Inl e, dirty) \<Rightarrow> (Inl e, d)
      | (Inr v, d') \<Rightarrow> (Inr v, d'))"

subsection \<open>POST /api/sales\<close>

text \<open>The loop \<^verbatim>\<open>for (const item of items)\<close>, with the two accumulators.\<close>

fun sale_loop ::
  "int \<Rightarrow> sale_line list \<Rightarrow> real \<Rightarrow> real \<Rightarrow> db \<Rightarrow> (error + real \<times> real) \<times> db" where
  "sale_loop saleId [] totalAmount totalProfit d = (Inr (totalAmount, totalProfit), d)"
| "sale_loop saleId (item # items) totalAmount totalProfit d =
     (case select_product d (item_product_id item) of
        None \<Rightarrow> (Inl TypeError, d)
      | Some product \<Rightarrow>
          (let profit = (item_selling_price item - p_cost_price product) * item_quantity item;
               amount = item_selling_price item * item_quantity item
           in case insert_sale_item saleId (item_product_id item) (item_quantity item)
                     (item_selling_price item) (p_cost_price product) profit d of
                Inl e \<Rightarrow> (Inl e, d)
              | Inr d1 \<Rightarrow>
                  sale_loop saleId items (totalAmount + amount) (totalProfit + profit)
                    (update_quantity_minus (item_quantity item) (item_product_id item) d1)))"

definition post_sales_tx :: "nat \<Rightarrow> sale_line list \<Rightarrow> db \<Rightarrow> (error + int) \<times> db" where
  "post_sales_tx now items d =
     (case insert_sale now d of
        (saleId, d1) \<Rightarrow>
          (case sale_loop saleId items 0 0 d1 of
             (Inl e, d2) \<Rightarrow> (Inl e, d2)
           | (Inr (totalAmount, totalProfit), d2) \<Rightarrow>
               (Inr saleId, update_sale_totals totalAmount totalProfit saleId d2)))"

definition post_sales :: "nat \<Rightarrow> sale_line list \<Rightarrow> db \<Rightarrow> (error + int) \<times> db" where
  "post_sales now items d = transaction (post_sales_tx now items) d"

subsection \<open>POST /api/withdrawals\<close>

text \<open>JavaScript's truth value of a product id read from a row or a body.\<close>

fun truthy :: "int option \<Rightarrow> bool" where
  "truthy None = False"
| "truthy (Some n) = (n \<noteq> 0)"

definition post_withdrawals_tx ::
  "nat \<Rightarrow> string \<Rightarrow> int option \<Rightarrow> real \<Rightarrow> string \<Rightarrow> db \<Rightarrow> (error + unit) \<times> db" where
  "post_withdrawals_tx now type pid amount description d =
     (case insert_withdrawal now type pid amount description d of
        Inl e \<Rightarrow> (Inl e, d)
      | Inr d1 \<Rightarrow>
          (Inr (),
           if type = ''item'' \<and> truthy pid
           then (case pid of Some p \<Rightarrow> update_quantity_minus 1 p d1 | None \<Rightarrow> d1)
           else d1))"

definition post_withdrawals :: "nat \<Rightarrow> withdrawal_req \<Rightarrow> db \<Rightarrow> (error + unit) \<times> db" where
  "post_withdrawals now req d =
     (let pid = (if wr_type req = ''item'' \<and> wr_product_id req \<noteq> Some 0
                 then wr_product_id req else None)
      in transaction
           (post_withdrawals_tx now (wr_type req) pid (wr_amount req) (wr_description req)) d)"

subsection \<open>POST /api/stock-arrivals\<close>

definition post_stock_arrivals_tx ::
  "nat \<Rightarrow> int option \<Rightarrow> real \<Rightarrow> real \<Rightarrow> db \<Rightarrow> (error + unit) \<times> db" where
  "post_stock_arrivals_tx now product_id quantity cost_price d =
     (case insert_stock_arrival now product_id quantity cost_price d of
        Inl e \<Rightarrow> (Inl e, d)
      | Inr d1 \<Rightarrow> (Inr (), update_arrival quantity cost_price product_id d1))"

definition post_stock_arrivals :: "nat \<Rightarrow> arrival_req \<Rightarrow> db \<Rightarrow> (error + unit) \<times> db" where
  "post_stock_arrivals now req d =
     transaction
       (post_stock_arrivals_tx now (ar_product_id req) (ar_quantity req) (ar_cost_price req)) d"

subsection \<open>DELETE /api/sales/:id\<close>




subsection \<open>DELETE /api/withdrawals/:id\<close>

definition delete_withdrawals_tx :: "int \<Rightarrow> db \<Rightarrow> (error + unit) \<times> db" where
  "delete_withdrawals_tx wid d =
     (let d1 = (case select_withdrawal d wid of
                  None \<Rightarrow> d
                | Some withdrawal \<Rightarrow>
                    if w_type withdrawal = ''item'' \<and> truthy (w_product_id withdrawal)
                    then (case w_product_id withdrawal of
                            Some p \<Rightarrow> update_quantity_plus 1 p d
                          | None \<Rightarrow> d)
                    else d)
      in (Inr (), delete_withdrawal_row wid d1))"

definition delete_withdrawals :: "int \<Rightarrow> db \<Rightarrow> (error + unit) \<times> db" where
  "delete_withdrawals wid d = transaction (delete_withdrawals_tx wid) d"

subsection \<open>DELETE /api/stock-arrivals/:id\<close>

definition delete_stock_arrivals_tx :: "int \<Rightarrow> db \<Rightarrow> (error + unit) \<times> db" where
  "delete_stock_arrivals_tx aid d =
     (case select_stock_arrival d aid of
        None \<Rightarrow> (Inr (), d)
      | Some arrival \<Rightarrow>
          (let d1 = (case sa_product_id arrival of
                       None \<Rightarrow> d
                     | Some p \<Rightarrow> update_quantity_minus (sa_quantity arrival) p d)
           in (Inr (), delete_stock_arrival_row aid d1)))"

definition delete_stock_arrivals :: "int \<Rightarrow> db \<Rightarrow> (error + unit) \<times> db" where
  "delete_stock_arrivals aid d = transaction (delete_stock_arrivals_tx aid) d"

subsection \<open>DELETE /api/products/:id\<close>

definition delete_products_tx :: "int \<Rightarrow> db \<Rightarrow> (error + unit) \<times> db" where
  "delete_products_tx pid d =
     (let d1 = delete_sale_items_of_product pid d;
          d2 = delete_withdrawals_of_product pid d1;
          d3 = delete_stock_arrivals_of_product pid d2
      in case delete_product_row pid d3 of
           Inl e \<Rightarrow> (Inl e, d3)
         | Inr d4 \<Rightarrow> (Inr (), delete_empty_sales d4))"

definition delete_products :: "int \<Rightarrow> db \<Rightarrow> (error + unit) \<times> db" where
  "delete_products pid d = transaction (delete_products_tx pid) d"

subsection \<open>GET /api/dashboard\<close>

text \<open>\<^verbatim>\<open>date(created_at)\<close>; \<^verbatim>\<open>SUM\<close>, which is \<^verbatim>\<open>NULL\<close> over no rows; and
  JavaScript's \<^verbatim>\<open>x || 0\<close> on a number or \<^verbatim>\<open>null\<close>.\<close>

definition sql_date :: "nat \<Rightarrow> nat" where
  "sql_date t = t div 86400"

definition sql_sum :: "real list \<Rightarrow> real option" where
  "sql_sum xs = (if xs = [] then None else Some (sum_list xs))"

definition or_zero :: "real option \<Rightarrow> real" where
  "or_zero v = (case v of None \<Rightarrow> 0 | Some x \<Rightarrow> if x = 0 then 0 else x)"

record dashboard =
  salesCount :: nat
  totalSales :: real
  totalProfit :: real
  lowStockCount :: nat

definition sales_today :: "nat \<Rightarrow> db \<Rightarrow> sale list" where
  "sales_today now d = filter (\<lambda>s. sql_date (s_created_at s) = sql_date now) (sales d)"

definition withdrawals_today :: "nat \<Rightarrow> db \<Rightarrow> withdrawal list" where
  "withdrawals_today now d =
     filter (\<lambda>w. sql_date (w_created_at w) = sql_date now) (withdrawals d)"

definition get_dashboard :: "nat \<Rightarrow> db \<Rightarrow> dashboard" where
  "get_dashboard now d =
     (let salesToday_count = length (sales_today now d);
          salesToday_total_sales = sql_sum (map s_total_amount (sales_today now d));
          salesToday_total_profit = sql_sum (map s_total_profit (sales_today now d));
          withdrawalsToday_total = sql_sum (map w_amount (withdrawals_today now d));
          lowStock_count = length (filter (\<lambda>p. p_quantity p \<le> p_min_stock p) (products d))
      in \<lparr>salesCount = salesToday_count,
          totalSales = or_zero salesToday_total_sales,
          totalProfit = or_zero salesToday_total_profit - or_zero withdrawalsToday_total,
          lowStockCount = lowStock_count\<rparr>)"

section \<open>A concrete shop\<close>

text \<open>The four products the server seeds an empty database with.\<close>

definition seed_db :: db where
  "seed_db =
     \<lparr>products =
        [\<lparr>p_id = 1, p_name = ''Dahl (Red)'', p_unit_type = ''weight'', p_cost_price = 180,
          p_selling_price = 220, p_quantity = 50, p_min_stock = 10\<rparr>,
         \<lparr>p_id = 2, p_name = ''Sugar'', p_unit_type = ''weight'', p_cost_price = 150,
          p_selling_price = 180, p_quantity = 100, p_min_stock = 20\<rparr>,
         \<lparr>p_id = 3, p_name = ''Coconut Oil'', p_unit_type = ''volume'', p_cost_price = 450,
          p_selling_price = 550, p_quantity = 20, p_min_stock = 5\<rparr>,
         \<lparr>p_id = 4, p_name = ''Milk Powder 400g'', p_unit_type = ''unit'', p_cost_price = 950,
          p_selling_price = 1050, p_quantity = 15, p_min_stock = 5\<rparr>],
      sales = [], sale_items = [], withdrawals = [], stock_arrivals = [],
      seq_sales = 0, seq_sale_items = 0, seq_withdrawals = 0, seq_stock_arrivals = 0\<rparr>"

text \<open>The shop after two sales, an item withdrawal and a stock arrival, all of product 1
  (the first sale also sells product 3).\<close>

definition traded_db :: db where
  "traded_db =
     snd (post_stock_arrivals 400 \<lparr>ar_product_id = Some 1, ar_quantity = 5, ar_cost_price = 190\<rparr>
     (snd (post_withdrawals 300
             \<lparr>wr_type = ''item'', wr_product_id = Some 1, wr_amount = 220,
               wr_description = ''sample''\<rparr>
     (snd (post_sales 200
             [\<lparr>item_product_id = 1, item_quantity = 4, item_selling_price = 220\<rparr>]
     (snd (post_sales 100
             [\<lparr>item_product_id = 1, item_quantity = 2, item_selling_price = 220\<rparr>,
              \<lparr>item_product_id = 3, item_quantity = 1, item_selling_price = 550\<rparr>]
             seed_db)))))))"

section \<open>Quantities the properties speak of\<close>



definition cost_price_of :: "db \<Rightarrow> int \<Rightarrow> real" where
  "cost_price_of d pid = (case select_product d pid of None \<Rightarrow> 0 | Some p \<Rightarrow> p_cost_price p)"

definition line_amount :: "sale_line \<Rightarrow> real" where
  "line_amount item = item_selling_price item * item_quantity item"

definition line_profit :: "db \<Rightarrow> sale_line \<Rightarrow> real" where
  "line_profit d item =
     (item_selling_price item - cost_price_of d (item_product_id item)) * item_quantity item"

definition line_row :: "int \<Rightarrow> db \<Rightarrow> sale_line \<Rightarrow> sale_item" where
  "line_row saleId d item =
     \<lparr>si_id = 0, si_sale_id = saleId, si_product_id = item_product_id item,
      si_quantity = item_quantity item, si_unit_price = item_selling_price item,
      si_cost_price = cost_price_of d (item_product_id item), si_profit = line_profit d item\<rparr>"

section \<open>The shop after trading, evaluated\<close>

lemma traded_db_eq:
  "traded_db =
     \<lparr>products =
        [\<lparr>p_id = 1, p_name = ''Dahl (Red)'', p_unit_type = ''weight'', p_cost_price = 190,
          p_selling_price = 220, p_quantity = 48, p_min_stock = 10\<rparr>,
         \<lparr>p_id = 2, p_name = ''Sugar'', p_unit_type = ''weight'', p_cost_price = 150,
          p_selling_price = 180, p_quantity = 100, p_min_stock = 20\<rparr>,
         \<lparr>p_id = 3, p_name = ''Coconut Oil'', p_unit_type = ''volume'', p_cost_price = 450,
          p_selling_price = 550, p_quantity = 19, p_min_stock = 5\<rparr>,
         \<lparr>p_id = 4, p_name = ''Milk Powder 400g'', p_unit_type = ''unit'', p_cost_price = 950,
          p_selling_price = 1050, p_quantity = 15, p_min_stock = 5\<rparr>],
      sales =
        [\<lparr>s_id = 1, s_total_amount = 990, s_total_profit = 180, s_created_at = 100\<rparr>,
         \<lparr>s_id = 2, s_total_amount = 880, s_total_profit = 160, s_created_at = 200\<rparr>],
      sale_items =
        [\<lparr>si_id = 1, si_sale_id = 1, si_product_id = 1, si_quantity = 2, si_unit_price = 220,
          si_cost_price = 180, si_profit = 80\<rparr>,
         \<lparr>si_id = 2, si_sale_id = 1, si_product_id = 3, si_quantity = 1, si_unit_price = 550,
          si_cost_price = 450, si_profit = 100\<rparr>,
         \<lparr>si_id = 3, si_sale_id = 2, si_product_id = 1, si_quantity = 4, si_unit_price = 220,
          si_cost_price = 180, si_profit = 160\<rparr>],
      withdrawals =
        [\<lparr>w_id = 1, w_type = ''item'', w_product_id = Some 1, w_amount = 220,
          w_description = ''sample'', w_created_at = 300\<rparr>],
      stock_arrivals =
        [\<lparr>sa_id = 1, sa_product_id = Some 1, sa_quantity = 5, sa_cost_price = 190,
          sa_created_at = 400\<rparr>],
      seq_sales = 2, seq_sale_items = 3, seq_withdrawals = 1, seq_stock_arrivals = 1\<rparr>"
  by (simp add: traded_db_def post_sales_def transaction_def post_sales_tx_def insert_sale_def
      next_rowid_def seed_db_def select_product_def insert_sale_item_def sale_exists_def
      product_exists_def update_quantity_minus_def update_sale_totals_def
      post_withdrawals_def post_withdrawals_tx_def insert_withdrawal_def
      post_stock_arrivals_def post_stock_arrivals_tx_def insert_stock_arrival_def
      update_arrival_def)

section \<open>Statements: what they read and what they leave alone\<close>

lemma select_product_None_iff: "select_product d pid = None \<longleftrightarrow> \<not> product_exists d pid"
  by (auto simp: select_product_def product_exists_def find_None_iff)

lemma find_map_keep_id:
  assumes "\<And>p. p_id (f p) = p_id p"
  shows "find (\<lambda>p. p_id p = pid) (map f ps) = map_option f (find (\<lambda>p. p_id p = pid) ps)"
  using assms by (induction ps) auto

lemma select_product_update_quantity_minus:
  "select_product (update_quantity_minus q pid' d) pid =
     map_option (\<lambda>p. if p_id p = pid' then p\<lparr>p_quantity := p_quantity p - q\<rparr> else p)
       (select_product d pid)"
  unfolding select_product_def update_quantity_minus_def
  by (simp add: find_map_keep_id)

lemma product_exists_update_quantity_minus [simp]:
  "product_exists (update_quantity_minus q pid' d) pid = product_exists d pid"
proof -
  have "map p_id (map (\<lambda>p. if p_id p = pid' then p\<lparr>p_quantity := p_quantity p - q\<rparr> else p)
          (products d)) = map p_id (products d)"
    by (induction "products d") auto
  then show ?thesis
    by (simp add: product_exists_def update_quantity_minus_def del: map_map)
qed

lemma cost_price_of_update_quantity_minus [simp]:
  "cost_price_of (update_quantity_minus q pid' d) pid = cost_price_of d pid"
  by (simp add: cost_price_of_def select_product_update_quantity_minus split: option.splits)

lemma sale_exists_update_quantity_minus [simp]:
  "sale_exists (update_quantity_minus q pid d) sid = sale_exists d sid"
  by (simp add: sale_exists_def update_quantity_minus_def)

lemma insert_sale_item_Inr:
  assumes "insert_sale_item sid pid q up cp pr d = Inr d1"
  shows "products d1 = products d" "sales d1 = sales d" "withdrawals d1 = withdrawals d"
    "stock_arrivals d1 = stock_arrivals d" "seq_sales d1 = seq_sales d"
    "seq_withdrawals d1 = seq_withdrawals d" "seq_stock_arrivals d1 = seq_stock_arrivals d"
    "\<exists>rowid. sale_items d1 = sale_items d @
        [\<lparr>si_id = rowid, si_sale_id = sid, si_product_id = pid, si_quantity = q,
          si_unit_price = up, si_cost_price = cp, si_profit = pr\<rparr>]"
  using assms by (auto simp: insert_sale_item_def Let_def split: if_splits)

lemma insert_sale_item_ok:
  "sale_exists d sid \<Longrightarrow> product_exists d pid \<Longrightarrow>
     \<exists>d1. insert_sale_item sid pid q up cp pr d = Inr d1"
  by (simp add: insert_sale_item_def Let_def)

lemma product_exists_cong: "products d1 = products d \<Longrightarrow> product_exists d1 = product_exists d"
  by (auto simp: product_exists_def fun_eq_iff)

lemma sale_exists_cong: "sales d1 = sales d \<Longrightarrow> sale_exists d1 = sale_exists d"
  by (auto simp: sale_exists_def fun_eq_iff)

lemma sale_loop_frame:
  "sales (snd (sale_loop saleId items ta tp d)) = sales d \<and>
   withdrawals (snd (sale_loop saleId items ta tp d)) = withdrawals d \<and>
   stock_arrivals (snd (sale_loop saleId items ta tp d)) = stock_arrivals d \<and>
   seq_sales (snd (sale_loop saleId items ta tp d)) = seq_sales d \<and>
   seq_withdrawals (snd (sale_loop saleId items ta tp d)) = seq_withdrawals d \<and>
   seq_stock_arrivals (snd (sale_loop saleId items ta tp d)) = seq_stock_arrivals d"
proof (induction items arbitrary: ta tp d)
  case Nil
  show ?case by simp
next
  case (Cons item items)
  show ?case
  proof (cases "select_product d (item_product_id item)")
    case None
    then show ?thesis by simp
  next
    case (Some product)
    show ?thesis
    proof (cases "insert_sale_item saleId (item_product_id item) (item_quantity item)
                     (item_selling_price item) (p_cost_price product)
                     ((item_selling_price item - p_cost_price product) * item_quantity item) d")
      case (Inl e)
      with Some show ?thesis by (simp add: Let_def)
    next
      case (Inr d1)
      from insert_sale_item_Inr [OF Inr] Some Inr Cons.IH show ?thesis
        by (simp add: Let_def update_quantity_minus_def)
    qed
  qed
qed



lemma line_profit_update [simp]:
  "line_profit (update_quantity_minus q pid d) = line_profit d"
  by (simp add: line_profit_def fun_eq_iff)

lemma line_row_update [simp]:
  "line_row s (update_quantity_minus q pid d) = line_row s d"
  by (simp add: line_row_def fun_eq_iff)

lemma sale_loop_Cons:
  assumes "product_exists d (item_product_id item)" and "sale_exists d saleId"
  shows "\<exists>d1 rowid. products d1 = products d \<and> sales d1 = sales d
           \<and> sale_items d1 = sale_items d @ [(line_row saleId d item)\<lparr>si_id := rowid\<rparr>]
           \<and> sale_loop saleId (item # items) ta tp d =
               sale_loop saleId items (ta + line_amount item) (tp + line_profit d item)
                 (update_quantity_minus (item_quantity item) (item_product_id item) d1)"
proof -
  from assms(1) obtain product where p: "select_product d (item_product_id item) = Some product"
    using select_product_None_iff by fastforce
  then have cp: "cost_price_of d (item_product_id item) = p_cost_price product"
    by (simp add: cost_price_of_def)
  from insert_sale_item_ok [OF assms(2) assms(1)] obtain d1 where
    i: "insert_sale_item saleId (item_product_id item) (item_quantity item)
          (item_selling_price item) (p_cost_price product)
          ((item_selling_price item - p_cost_price product) * item_quantity item) d = Inr d1"
    by blast
  note f = insert_sale_item_Inr [OF i]
  from f(8) obtain rowid where
    si: "sale_items d1 = sale_items d @
        [\<lparr>si_id = rowid, si_sale_id = saleId, si_product_id = item_product_id item,
          si_quantity = item_quantity item, si_unit_price = item_selling_price item,
          si_cost_price = p_cost_price product,
          si_profit = (item_selling_price item - p_cost_price product) * item_quantity item\<rparr>]"
    by (elim exE)
  have row: "sale_items d1 = sale_items d @ [(line_row saleId d item)\<lparr>si_id := rowid\<rparr>]"
    using si cp by (simp add: line_row_def line_profit_def)
  have step: "sale_loop saleId (item # items) ta tp d =
               sale_loop saleId items (ta + line_amount item) (tp + line_profit d item)
                 (update_quantity_minus (item_quantity item) (item_product_id item) d1)"
    using p i cp by (simp add: line_amount_def line_profit_def)
  from f(1) f(2) row step show ?thesis
    by (intro exI [of _ d1] exI [of _ rowid] conjI)
qed



lemma fold_max_ge: "(a::int) \<le> fold max ids a"
proof (induction ids arbitrary: a)
  case Nil
  show ?case by simp
next
  case (Cons x xs)
  have "a \<le> max x a" by simp
  also have "\<dots> \<le> fold max xs (max x a)" by (rule Cons.IH)
  finally show ?case by simp
qed

lemma fold_max_mem: "(x::int) \<in> set ids \<Longrightarrow> x \<le> fold max ids a"
proof (induction ids arbitrary: a)
  case Nil
  then show ?case by simp
next
  case (Cons y ys)
  show ?case
  proof (cases "x = y")
    case True
    have "x \<le> max y a" using True by simp
    also have "\<dots> \<le> fold max ys (max y a)" by (rule fold_max_ge)
    finally show ?thesis by simp
  next
    case False
    with Cons.prems have "x \<in> set ys" by simp
    from Cons.IH [OF this] show ?thesis by simp
  qed
qed

lemma next_rowid_fresh: "x \<in> set ids \<Longrightarrow> x < next_rowid seq ids"
  using fold_max_mem [of x ids 0] by (simp add: next_rowid_def)



section \<open>Recording a sale\<close>




section \<open>A sale that names an unknown product\<close>

lemma transaction_Inl: "fst (fn d) = Inl e \<Longrightarrow> transaction fn d = (Inl e, d)"
  by (cases "fn d") (auto simp: transaction_def)

lemma sale_loop_fails:
  assumes "sale_exists d saleId"
    and "\<exists>item\<in>set items. \<not> product_exists d (item_product_id item)"
  shows "fst (sale_loop saleId items ta tp d) = Inl TypeError"
  using assms
proof (induction items arbitrary: ta tp d)
  case Nil
  then show ?case by simp
next
  case (Cons item items)
  show ?case
  proof (cases "product_exists d (item_product_id item)")
    case False
    then have "select_product d (item_product_id item) = None"
      by (simp add: select_product_None_iff)
    then show ?thesis by simp
  next
    case True
    from sale_loop_Cons [OF True Cons.prems(1), of items ta tp] obtain d1 and rowid :: int where
      d1: "products d1 = products d" "sales d1 = sales d"
      and step: "sale_loop saleId (item # items) ta tp d =
               sale_loop saleId items (ta + line_amount item) (tp + line_profit d item)
                 (update_quantity_minus (item_quantity item) (item_product_id item) d1)"
      by (elim exE conjE)
    let ?d2 = "update_quantity_minus (item_quantity item) (item_product_id item) d1"
    have pre1: "sale_exists ?d2 saleId"
      using Cons.prems(1) by (simp add: sale_exists_cong [OF d1(2)])
    from Cons.prems(2) True
    have "\<exists>i\<in>set items. \<not> product_exists d (item_product_id i)" by auto
    then have pre2: "\<exists>i\<in>set items. \<not> product_exists ?d2 (item_product_id i)"
      by (simp add: product_exists_cong [OF d1(1)])
    from Cons.IH [OF pre1 pre2] step show ?thesis by simp
  qed
qed

lemma post_sales_tx_fails:
  assumes "\<exists>item\<in>set items. \<not> product_exists d (item_product_id item)"
  shows "fst (post_sales_tx now items d) = Inl TypeError"
    and "sales (snd (post_sales_tx now items d)) = sales d @
           [\<lparr>s_id = next_rowid (seq_sales d) (map s_id (sales d)),
             s_total_amount = 0, s_total_profit = 0, s_created_at = now\<rparr>]"
proof -
  let ?sid = "next_rowid (seq_sales d) (map s_id (sales d))"
  let ?row0 = "\<lparr>s_id = ?sid, s_total_amount = 0, s_total_profit = 0, s_created_at = now\<rparr>"
  let ?d1 = "d\<lparr>sales := sales d @ [?row0], seq_sales := ?sid\<rparr>"
  have ins: "insert_sale now d = (?sid, ?d1)"
    by (simp add: insert_sale_def Let_def)
  have pre1: "sale_exists ?d1 ?sid"
    by (simp add: sale_exists_def)
  have pre2: "\<exists>item\<in>set items. \<not> product_exists ?d1 (item_product_id item)"
    using assms by (simp add: product_exists_def)
  have f: "fst (sale_loop ?sid items 0 0 ?d1) = Inl TypeError"
    by (rule sale_loop_fails [OF pre1 pre2])
  have s: "sales (snd (sale_loop ?sid items 0 0 ?d1)) = sales ?d1"
    using sale_loop_frame [of ?sid items 0 0 ?d1] by simp
  obtain r d2 where l: "sale_loop ?sid items 0 0 ?d1 = (r, d2)"
    by (cases "sale_loop ?sid items 0 0 ?d1")
  from f l have r: "r = Inl TypeError" by simp
  from s l have s2: "sales d2 = sales ?d1" by simp
  have tx: "post_sales_tx now items d = (Inl TypeError, d2)"
    using ins l r by (simp add: post_sales_tx_def)
  show "fst (post_sales_tx now items d) = Inl TypeError"
    using tx by simp
  show "sales (snd (post_sales_tx now items d)) = sales d @ [?row0]"
    using tx s2 by simp
qed

text \<open>
  C9. When some line of a \<^verbatim>\<open>POST /api/sales\<close> names no existing product, reading
  \<^verbatim>\<open>product.cost_price\<close> of \<^verbatim>\<open>undefined\<close> throws: the answer is the HTTP 500 of the
  \<^verbatim>\<open>catch\<close> and the state is the state before the request. The sale row inserted at
  the start of the transaction was there when the exception was thrown (second
  conjunct: the state the transaction function had reached) and is rolled back with
  everything the earlier lines had written.
\<close>

theorem post_sales_unknown_product:
  assumes "\<exists>item\<in>set items. \<not> product_exists d (item_product_id item)"
  shows "post_sales now items d = (Inl TypeError, d)
       \<and> sales (snd (post_sales_tx now items d)) = sales d @
           [\<lparr>s_id = next_rowid (seq_sales d) (map s_id (sales d)),
             s_total_amount = 0, s_total_profit = 0, s_created_at = now\<rparr>]"
  using post_sales_tx_fails [OF assms, of now]
  by (simp add: post_sales_def transaction_Inl)

text \<open>The theorem at a sale whose second line names product 9 of a shop with products 1 to 4.\<close>

theorem post_sales_unknown_product_witness:
  "\<not> product_exists seed_db 9 \<and>
   post_sales 100
     [\<lparr>item_product_id = 1, item_quantity = 2, item_selling_price = 220\<rparr>,
      \<lparr>item_product_id = 9, item_quantity = 1, item_selling_price = 10\<rparr>] seed_db
     = (Inl TypeError, seed_db) \<and>
   map s_id (sales (snd (post_sales_tx 100
     [\<lparr>item_product_id = 1, item_quantity = 2, item_selling_price = 220\<rparr>,
      \<lparr>item_product_id = 9, item_quantity = 1, item_selling_price = 10\<rparr>] seed_db))) = [1]"
proof -
  let ?items = "[\<lparr>item_product_id = 1, item_quantity = 2, item_selling_price = 220\<rparr>,
      \<lparr>item_product_id = 9, item_quantity = 1, item_selling_price = 10\<rparr>]"
  have n: "\<not> product_exists seed_db 9"
    by (simp add: product_exists_def seed_db_def)
  then have h: "\<exists>item\<in>set ?items. \<not> product_exists seed_db (item_product_id item)"
    by simp
  from post_sales_unknown_product [OF h, of 100] n show ?thesis
    by (simp add: seed_db_def next_rowid_def)
qed

section \<open>Undoing a sale\<close>













section \<open>Withdrawals\<close>

lemma post_withdrawals_amount_free:
  "products (snd (post_withdrawals now (req\<lparr>wr_amount := amount\<rparr>) d)) =
   products (snd (post_withdrawals now req d))"
  by (simp add: post_withdrawals_def transaction_def post_withdrawals_tx_def
      insert_withdrawal_def update_quantity_minus_def Let_def split: option.splits)

lemma post_withdrawals_item_eq:
  assumes "wr_type req = ''item''" and "wr_product_id req = Some pid" and "pid \<noteq> 0"
    and "product_exists d pid"
  shows "post_withdrawals now req d =
     (Inr (),
      d\<lparr>withdrawals := withdrawals d @
          [\<lparr>w_id = next_rowid (seq_withdrawals d) (map w_id (withdrawals d)),
            w_type = ''item'', w_product_id = Some pid, w_amount = wr_amount req,
            w_description = wr_description req, w_created_at = now\<rparr>],
        seq_withdrawals := next_rowid (seq_withdrawals d) (map w_id (withdrawals d)),
        products :=
          map (\<lambda>p. if p_id p = pid then p\<lparr>p_quantity := p_quantity p - 1\<rparr> else p) (products d)\<rparr>)"
  using assms
  by (simp add: post_withdrawals_def transaction_def post_withdrawals_tx_def
      insert_withdrawal_def update_quantity_minus_def Let_def)

text \<open>
  C4. The products a \<^verbatim>\<open>POST /api/withdrawals\<close> leaves behind do not depend on the
  \<^verbatim>\<open>amount\<close> of the request, whatever the request is. When the type is \<^verbatim>\<open>'item'\<close>
  and \<^verbatim>\<open>product_id\<close> names an existing product (an id other than 0, which the handler
  reads as "no product"), the request succeeds and that product's quantity goes down
  by exactly 1; every other product and every other column is unchanged.
\<close>

theorem post_withdrawals_item:
  "(\<forall>amount. products (snd (post_withdrawals now (req\<lparr>wr_amount := amount\<rparr>) d)) =
              products (snd (post_withdrawals now req d)))
   \<and> (wr_type req = ''item'' \<and> wr_product_id req = Some pid \<and> pid \<noteq> 0 \<and> product_exists d pid
      \<longrightarrow> (\<exists>d'. post_withdrawals now req d = (Inr (), d')
            \<and> products d' =
                map (\<lambda>p. if p_id p = pid then p\<lparr>p_quantity := p_quantity p - 1\<rparr> else p)
                  (products d)))"
  by (simp add: post_withdrawals_amount_free post_withdrawals_item_eq)

text \<open>The theorem at an item withdrawal of product 2, valued 7 and valued 1000.\<close>

theorem post_withdrawals_item_witness:
  "product_exists seed_db 2 \<and>
   fst (post_withdrawals 100
     \<lparr>wr_type = ''item'', wr_product_id = Some 2, wr_amount = 7, wr_description = ''spoiled''\<rparr>
     seed_db) = Inr () \<and>
   map p_quantity (products (snd (post_withdrawals 100
     \<lparr>wr_type = ''item'', wr_product_id = Some 2, wr_amount = 7, wr_description = ''spoiled''\<rparr>
     seed_db))) = [50, 99, 20, 15] \<and>
   products (snd (post_withdrawals 100
     \<lparr>wr_type = ''item'', wr_product_id = Some 2, wr_amount = 1000, wr_description = ''spoiled''\<rparr>
     seed_db)) =
   products (snd (post_withdrawals 100
     \<lparr>wr_type = ''item'', wr_product_id = Some 2, wr_amount = 7, wr_description = ''spoiled''\<rparr>
     seed_db))"
proof -
  let ?req = "\<lparr>wr_type = ''item'', wr_product_id = Some 2, wr_amount = 7,
                wr_description = ''spoiled''\<rparr>"
  have ex: "product_exists seed_db 2"
    by (simp add: product_exists_def seed_db_def)
  note t = post_withdrawals_item [of 100 ?req seed_db 2]
  from t ex obtain d' where
    "post_withdrawals 100 ?req seed_db = (Inr (), d')"
    "products d' =
       map (\<lambda>p. if p_id p = 2 then p\<lparr>p_quantity := p_quantity p - 1\<rparr> else p) (products seed_db)"
    by auto
  then have a: "fst (post_withdrawals 100 ?req seed_db) = Inr ()
      \<and> map p_quantity (products (snd (post_withdrawals 100 ?req seed_db))) = [50, 99, 20, 15]"
    by (simp add: seed_db_def)
  from t have "products (snd (post_withdrawals 100 (?req\<lparr>wr_amount := 1000\<rparr>) seed_db)) =
      products (snd (post_withdrawals 100 ?req seed_db))"
    by blast
  with a ex show ?thesis by simp
qed

lemma find_fresh_append:
  assumes "\<forall>x\<in>set xs. \<not> P x" and "P y"
  shows "find P (xs @ [y]) = Some y"
  using assms by (induction xs) auto

lemma delete_withdrawals_no_product:
  assumes "select_withdrawal d wid = Some w" and "w_product_id w = None"
  shows "delete_withdrawals wid d =
           (Inr (), d\<lparr>withdrawals := filter (\<lambda>w. w_id w \<noteq> wid) (withdrawals d)\<rparr>)"
  using assms
  by (simp add: delete_withdrawals_def transaction_def delete_withdrawals_tx_def
      delete_withdrawal_row_def)

lemma post_withdrawals_no_product_eq:
  assumes "wr_type req = ''item''" and "wr_product_id req = Some 0 \<or> wr_product_id req = None"
  shows "post_withdrawals now req d =
     (Inr (),
      d\<lparr>withdrawals := withdrawals d @
          [\<lparr>w_id = next_rowid (seq_withdrawals d) (map w_id (withdrawals d)),
            w_type = ''item'', w_product_id = None, w_amount = wr_amount req,
            w_description = wr_description req, w_created_at = now\<rparr>],
        seq_withdrawals := next_rowid (seq_withdrawals d) (map w_id (withdrawals d))\<rparr>)"
  using assms
  by (auto simp: post_withdrawals_def transaction_def post_withdrawals_tx_def
      insert_withdrawal_def Let_def)

text \<open>
  C10. An item withdrawal whose \<^verbatim>\<open>product_id\<close> is 0, \<^verbatim>\<open>null\<close> or absent (\<open>None\<close>:
  the driver binds \<^verbatim>\<open>null\<close> and \<^verbatim>\<open>undefined\<close> alike as \<^verbatim>\<open>NULL\<close>) is recorded with
  \<^verbatim>\<open>product_id\<close> \<^verbatim>\<open>NULL\<close> and changes no product. Undoing it right away succeeds,
  removes the row and changes no product; and in any later state, undoing a withdrawal
  whose row has no product changes no product.
\<close>

theorem post_withdrawals_item_without_product:
  assumes "wr_type req = ''item''" and "wr_product_id req = Some 0 \<or> wr_product_id req = None"
  shows "\<exists>d' wid.
           post_withdrawals now req d = (Inr (), d')
         \<and> products d' = products d
         \<and> withdrawals d' = withdrawals d @
             [\<lparr>w_id = wid, w_type = ''item'', w_product_id = None, w_amount = wr_amount req,
               w_description = wr_description req, w_created_at = now\<rparr>]
         \<and> (\<exists>d''. delete_withdrawals wid d' = (Inr (), d'')
                 \<and> products d'' = products d \<and> withdrawals d'' = withdrawals d)
         \<and> (\<forall>d2 w. select_withdrawal d2 wid = Some w \<and> w_product_id w = None
                \<longrightarrow> products (snd (delete_withdrawals wid d2)) = products d2)"
proof -
  let ?wid = "next_rowid (seq_withdrawals d) (map w_id (withdrawals d))"
  let ?row = "\<lparr>w_id = ?wid, w_type = ''item'', w_product_id = None, w_amount = wr_amount req,
               w_description = wr_description req, w_created_at = now\<rparr>"
  let ?d' = "d\<lparr>withdrawals := withdrawals d @ [?row], seq_withdrawals := ?wid\<rparr>"
  have post: "post_withdrawals now req d = (Inr (), ?d')"
    by (rule post_withdrawals_no_product_eq [OF assms])
  have fresh: "\<forall>w\<in>set (withdrawals d). w_id w \<noteq> ?wid"
    using next_rowid_fresh [of _ "map w_id (withdrawals d)" "seq_withdrawals d"] by fastforce
  then have sel: "select_withdrawal ?d' ?wid = Some ?row"
    by (simp add: select_withdrawal_def find_fresh_append)
  have flt: "filter (\<lambda>w. w_id w \<noteq> ?wid) (withdrawals d) = withdrawals d"
    using fresh by (simp add: filter_id_conv)
  have undo: "delete_withdrawals ?wid ?d' =
      (Inr (), ?d'\<lparr>withdrawals := filter (\<lambda>w. w_id w \<noteq> ?wid) (withdrawals ?d')\<rparr>)"
    by (rule delete_withdrawals_no_product [OF sel]) simp
  have u: "\<exists>d''. delete_withdrawals ?wid ?d' = (Inr (), d'')
                 \<and> products d'' = products d \<and> withdrawals d'' = withdrawals d"
    unfolding undo using flt by simp
  have g: "\<forall>d2 w. select_withdrawal d2 ?wid = Some w \<and> w_product_id w = None
                \<longrightarrow> products (snd (delete_withdrawals ?wid d2)) = products d2"
    by (auto simp: delete_withdrawals_no_product)
  show ?thesis
  proof (rule exI [of _ ?d'], rule exI [of _ ?wid], intro conjI)
    show "post_withdrawals now req d = (Inr (), ?d')" by (rule post)
    show "products ?d' = products d" by simp
    show "withdrawals ?d' = withdrawals d @ [?row]" by simp
    show "\<exists>d''. delete_withdrawals ?wid ?d' = (Inr (), d'')
                 \<and> products d'' = products d \<and> withdrawals d'' = withdrawals d"
      by (rule u)
    show "\<forall>d2 w. select_withdrawal d2 ?wid = Some w \<and> w_product_id w = None
                \<longrightarrow> products (snd (delete_withdrawals ?wid d2)) = products d2"
      by (rule g)
  qed
qed

text \<open>The theorem at an item withdrawal with \<^verbatim>\<open>product_id\<close> 0.\<close>

theorem post_withdrawals_item_without_product_witness:
  "(\<exists>d' wid.
      post_withdrawals 100
        \<lparr>wr_type = ''item'', wr_product_id = Some 0, wr_amount = 7, wr_description = ''x''\<rparr>
        seed_db = (Inr (), d')
    \<and> products d' = products seed_db
    \<and> map w_product_id (withdrawals d') = [None]
    \<and> (\<exists>d''. delete_withdrawals wid d' = (Inr (), d'')
           \<and> products d'' = products seed_db \<and> withdrawals d'' = []))"
proof -
  let ?req = "\<lparr>wr_type = ''item'', wr_product_id = Some 0, wr_amount = 7, wr_description = ''x''\<rparr>"
  have h1: "wr_type ?req = ''item''" by simp
  have h2: "wr_product_id ?req = Some 0 \<or> wr_product_id ?req = None" by simp
  have e: "withdrawals seed_db = []" by (simp add: seed_db_def)
  from post_withdrawals_item_without_product [OF h1 h2, of 100 seed_db] obtain d' wid where
    p: "post_withdrawals 100 ?req seed_db = (Inr (), d')"
    and ps: "products d' = products seed_db"
    and ws: "withdrawals d' = withdrawals seed_db @
             [\<lparr>w_id = wid, w_type = ''item'', w_product_id = None, w_amount = wr_amount ?req,
               w_description = wr_description ?req, w_created_at = 100\<rparr>]"
    and u: "\<exists>d''. delete_withdrawals wid d' = (Inr (), d'')
                 \<and> products d'' = products seed_db \<and> withdrawals d'' = withdrawals seed_db"
    by blast
  show ?thesis
  proof (rule exI [of _ d'], rule exI [of _ wid], intro conjI)
    show "post_withdrawals 100 ?req seed_db = (Inr (), d')" by (rule p)
    show "products d' = products seed_db" by (rule ps)
    show "map w_product_id (withdrawals d') = [None]" using ws e by simp
    show "\<exists>d''. delete_withdrawals wid d' = (Inr (), d'')
           \<and> products d'' = products seed_db \<and> withdrawals d'' = []"
      using u e by simp
  qed
qed

section \<open>Stock arrivals\<close>

lemma post_stock_arrivals_eq:
  assumes "ar_product_id req = Some pid" and "product_exists d pid"
  shows "post_stock_arrivals now req d =
     (Inr (),
      d\<lparr>stock_arrivals := stock_arrivals d @
          [\<lparr>sa_id = next_rowid (seq_stock_arrivals d) (map sa_id (stock_arrivals d)),
            sa_product_id = Some pid, sa_quantity = ar_quantity req,
            sa_cost_price = ar_cost_price req, sa_created_at = now\<rparr>],
        seq_stock_arrivals := next_rowid (seq_stock_arrivals d) (map sa_id (stock_arrivals d)),
        products :=
          map (\<lambda>p. if p_id p = pid
                   then p\<lparr>p_quantity := p_quantity p + ar_quantity req,
                          p_cost_price := ar_cost_price req\<rparr>
                   else p) (products d)\<rparr>)"
  using assms
  by (simp add: post_stock_arrivals_def transaction_def post_stock_arrivals_tx_def
      insert_stock_arrival_def update_arrival_def Let_def)

text \<open>
  C6. A \<^verbatim>\<open>POST /api/stock-arrivals\<close> that names an existing product succeeds: the
  product's quantity grows by the arrival's quantity, its cost price becomes the
  arrival's cost price whatever it was (no averaging with the old one), every other
  product is unchanged, and the matching row is appended to \<^verbatim>\<open>stock_arrivals\<close>.
\<close>

theorem post_stock_arrivals_effect:
  assumes "ar_product_id req = Some pid" and "product_exists d pid"
  shows "\<exists>d' aid.
           post_stock_arrivals now req d = (Inr (), d')
         \<and> products d' =
             map (\<lambda>p. if p_id p = pid
                      then p\<lparr>p_quantity := p_quantity p + ar_quantity req,
                             p_cost_price := ar_cost_price req\<rparr>
                      else p) (products d)
         \<and> stock_arrivals d' = stock_arrivals d @
             [\<lparr>sa_id = aid, sa_product_id = Some pid, sa_quantity = ar_quantity req,
               sa_cost_price = ar_cost_price req, sa_created_at = now\<rparr>]"
proof -
  let ?aid = "next_rowid (seq_stock_arrivals d) (map sa_id (stock_arrivals d))"
  let ?row = "\<lparr>sa_id = ?aid, sa_product_id = Some pid, sa_quantity = ar_quantity req,
               sa_cost_price = ar_cost_price req, sa_created_at = now\<rparr>"
  let ?ps = "map (\<lambda>p. if p_id p = pid
                      then p\<lparr>p_quantity := p_quantity p + ar_quantity req,
                             p_cost_price := ar_cost_price req\<rparr>
                      else p) (products d)"
  let ?d' = "d\<lparr>stock_arrivals := stock_arrivals d @ [?row], seq_stock_arrivals := ?aid,
               products := ?ps\<rparr>"
  show ?thesis
  proof (rule exI [of _ ?d'], rule exI [of _ ?aid], intro conjI)
    show "post_stock_arrivals now req d = (Inr (), ?d')"
      by (rule post_stock_arrivals_eq [OF assms])
    show "products ?d' = ?ps" by simp
    show "stock_arrivals ?d' = stock_arrivals d @ [?row]" by simp
  qed
qed

text \<open>The theorem at an arrival of 10 units of product 1 at cost 200 (it had 50 at cost 180).\<close>

theorem post_stock_arrivals_effect_witness:
  "product_exists seed_db 1 \<and>
   (\<exists>d' aid.
      post_stock_arrivals 100
        \<lparr>ar_product_id = Some 1, ar_quantity = 10, ar_cost_price = 200\<rparr> seed_db = (Inr (), d')
    \<and> map p_quantity (products d') = [60, 100, 20, 15]
    \<and> map p_cost_price (products d') = [200, 150, 450, 950]
    \<and> stock_arrivals d' =
        [\<lparr>sa_id = aid, sa_product_id = Some 1, sa_quantity = 10, sa_cost_price = 200,
          sa_created_at = 100\<rparr>])"
proof -
  let ?req = "\<lparr>ar_product_id = Some 1, ar_quantity = 10, ar_cost_price = 200\<rparr>"
  have h1: "ar_product_id ?req = Some 1" by simp
  have ex: "product_exists seed_db 1"
    by (simp add: product_exists_def seed_db_def)
  from post_stock_arrivals_effect [OF h1 ex, of 100] obtain d' aid where
    p: "post_stock_arrivals 100 ?req seed_db = (Inr (), d')"
    and ps: "products d' =
             map (\<lambda>p. if p_id p = 1
                      then p\<lparr>p_quantity := p_quantity p + ar_quantity ?req,
                             p_cost_price := ar_cost_price ?req\<rparr>
                      else p) (products seed_db)"
    and sa: "stock_arrivals d' = stock_arrivals seed_db @
             [\<lparr>sa_id = aid, sa_product_id = Some 1, sa_quantity = ar_quantity ?req,
               sa_cost_price = ar_cost_price ?req, sa_created_at = 100\<rparr>]"
    by blast
  have "\<exists>d' aid.
      post_stock_arrivals 100 ?req seed_db = (Inr (), d')
    \<and> map p_quantity (products d') = [60, 100, 20, 15]
    \<and> map p_cost_price (products d') = [200, 150, 450, 950]
    \<and> stock_arrivals d' =
        [\<lparr>sa_id = aid, sa_product_id = Some 1, sa_quantity = 10, sa_cost_price = 200,
          sa_created_at = 100\<rparr>]"
  proof (rule exI [of _ d'], rule exI [of _ aid], intro conjI)
    show "post_stock_arrivals 100 ?req seed_db = (Inr (), d')" by (rule p)
    show "map p_quantity (products d') = [60, 100, 20, 15]"
      using ps by (simp add: seed_db_def)
    show "map p_cost_price (products d') = [200, 150, 450, 950]"
      using ps by (simp add: seed_db_def)
    show "stock_arrivals d' =
        [\<lparr>sa_id = aid, sa_product_id = Some 1, sa_quantity = 10, sa_cost_price = 200,
          sa_created_at = 100\<rparr>]"
      using sa by (simp add: seed_db_def)
  qed
  with ex show ?thesis by simp
qed

lemma delete_stock_arrivals_eq:
  assumes "select_stock_arrival d aid = Some arrival"
  shows "delete_stock_arrivals aid d =
     (Inr (),
      d\<lparr>products :=
          map (\<lambda>p. if Some (p_id p) = sa_product_id arrival
                   then p\<lparr>p_quantity := p_quantity p - sa_quantity arrival\<rparr> else p) (products d),
        stock_arrivals := filter (\<lambda>a. sa_id a \<noteq> aid) (stock_arrivals d)\<rparr>)"
proof (cases "sa_product_id arrival")
  case None
  have "map (\<lambda>p. p) (products d) = products d" by simp
  with assms None show ?thesis
    by (simp add: delete_stock_arrivals_def transaction_def delete_stock_arrivals_tx_def
        delete_stock_arrival_row_def)
next
  case (Some pid)
  have "(\<lambda>p. if Some (p_id p) = Some pid
              then p\<lparr>p_quantity := p_quantity p - sa_quantity arrival\<rparr> else p) =
        (\<lambda>p. if p_id p = pid
              then p\<lparr>p_quantity := p_quantity p - sa_quantity arrival\<rparr> else p)"
    by (simp add: fun_eq_iff)
  with assms Some show ?thesis
    by (simp add: delete_stock_arrivals_def transaction_def delete_stock_arrivals_tx_def
        delete_stock_arrival_row_def update_quantity_minus_def)
qed

text \<open>
  C7. \<^verbatim>\<open>DELETE /api/stock-arrivals/:id\<close> of an existing arrival succeeds: the product
  the arrival refers to loses the arrival's recorded quantity, the cost prices of all
  products are what they were before the request (the price from before the arrival is
  not brought back), and apart from the quantity no column of \<^verbatim>\<open>products\<close> changes.
\<close>

theorem delete_stock_arrivals_effect:
  assumes "select_stock_arrival d aid = Some arrival"
  shows "\<exists>d'. delete_stock_arrivals aid d = (Inr (), d')
         \<and> products d' =
             map (\<lambda>p. if Some (p_id p) = sa_product_id arrival
                      then p\<lparr>p_quantity := p_quantity p - sa_quantity arrival\<rparr> else p)
               (products d)
         \<and> map p_cost_price (products d') = map p_cost_price (products d)
         \<and> map (\<lambda>p. p\<lparr>p_quantity := 0\<rparr>) (products d') = map (\<lambda>p. p\<lparr>p_quantity := 0\<rparr>) (products d)"
proof -
  let ?f = "\<lambda>p. if Some (p_id p) = sa_product_id arrival
                 then p\<lparr>p_quantity := p_quantity p - sa_quantity arrival\<rparr> else p"
  have c: "map p_cost_price (map ?f (products d)) = map p_cost_price (products d)"
    by (induction "products d") auto
  have o: "map (\<lambda>p. p\<lparr>p_quantity := 0\<rparr>) (map ?f (products d)) =
           map (\<lambda>p. p\<lparr>p_quantity := 0\<rparr>) (products d)"
    by (induction "products d") auto
  let ?d' = "d\<lparr>products := map ?f (products d),
               stock_arrivals := filter (\<lambda>a. sa_id a \<noteq> aid) (stock_arrivals d)\<rparr>"
  show ?thesis
  proof (rule exI [of _ ?d'], intro conjI)
    show "delete_stock_arrivals aid d = (Inr (), ?d')"
      by (rule delete_stock_arrivals_eq [OF assms])
    show "products ?d' = map ?f (products d)" by simp
    show "map p_cost_price (products ?d') = map p_cost_price (products d)"
      using c by simp
    show "map (\<lambda>p. p\<lparr>p_quantity := 0\<rparr>) (products ?d') =
          map (\<lambda>p. p\<lparr>p_quantity := 0\<rparr>) (products d)"
      using o by simp
  qed
qed

text \<open>The theorem at the arrival above, undone: product 1 is back at 50 units and
  keeps the cost price 200 of the arrival, not the 180 it had before.\<close>

theorem delete_stock_arrivals_effect_witness:
  "select_stock_arrival
     (snd (post_stock_arrivals 100
        \<lparr>ar_product_id = Some 1, ar_quantity = 10, ar_cost_price = 200\<rparr> seed_db)) 1
     = Some \<lparr>sa_id = 1, sa_product_id = Some 1, sa_quantity = 10, sa_cost_price = 200,
             sa_created_at = 100\<rparr> \<and>
   map p_cost_price (products seed_db) = [180, 150, 450, 950] \<and>
   map p_quantity (products (snd (post_stock_arrivals 100
        \<lparr>ar_product_id = Some 1, ar_quantity = 10, ar_cost_price = 200\<rparr> seed_db)))
     = [60, 100, 20, 15] \<and>
   (\<exists>d'. delete_stock_arrivals 1
            (snd (post_stock_arrivals 100
               \<lparr>ar_product_id = Some 1, ar_quantity = 10, ar_cost_price = 200\<rparr> seed_db))
          = (Inr (), d')
       \<and> map p_quantity (products d') = [50, 100, 20, 15]
       \<and> map p_cost_price (products d') = [200, 150, 450, 950])"
proof -
  let ?d1 = "snd (post_stock_arrivals 100
        \<lparr>ar_product_id = Some 1, ar_quantity = 10, ar_cost_price = 200\<rparr> seed_db)"
  let ?a = "\<lparr>sa_id = 1, sa_product_id = Some 1, sa_quantity = 10, sa_cost_price = 200,
             sa_created_at = 100\<rparr>"
  have ev: "select_stock_arrival ?d1 1 = Some ?a
      \<and> products ?d1 =
        [\<lparr>p_id = 1, p_name = ''Dahl (Red)'', p_unit_type = ''weight'', p_cost_price = 200,
          p_selling_price = 220, p_quantity = 60, p_min_stock = 10\<rparr>,
         \<lparr>p_id = 2, p_name = ''Sugar'', p_unit_type = ''weight'', p_cost_price = 150,
          p_selling_price = 180, p_quantity = 100, p_min_stock = 20\<rparr>,
         \<lparr>p_id = 3, p_name = ''Coconut Oil'', p_unit_type = ''volume'', p_cost_price = 450,
          p_selling_price = 550, p_quantity = 20, p_min_stock = 5\<rparr>,
         \<lparr>p_id = 4, p_name = ''Milk Powder 400g'', p_unit_type = ''unit'', p_cost_price = 950,
          p_selling_price = 1050, p_quantity = 15, p_min_stock = 5\<rparr>]"
    by (simp add: post_stock_arrivals_def transaction_def post_stock_arrivals_tx_def
        insert_stock_arrival_def update_arrival_def product_exists_def next_rowid_def
        select_stock_arrival_def seed_db_def)
  then have sel: "select_stock_arrival ?d1 1 = Some ?a" by simp
  from delete_stock_arrivals_effect [OF sel] obtain d' where
    del: "delete_stock_arrivals 1 ?d1 = (Inr (), d')"
    and ps: "products d' =
             map (\<lambda>p. if Some (p_id p) = sa_product_id ?a
                      then p\<lparr>p_quantity := p_quantity p - sa_quantity ?a\<rparr> else p)
               (products ?d1)"
    by blast
  have "\<exists>d'. delete_stock_arrivals 1 ?d1 = (Inr (), d')
       \<and> map p_quantity (products d') = [50, 100, 20, 15]
       \<and> map p_cost_price (products d') = [200, 150, 450, 950]"
    using del ps ev by simp
  moreover have "map p_cost_price (products seed_db) = [180, 150, 450, 950]"
    by (simp add: seed_db_def)
  ultimately show ?thesis using ev by simp
qed

section \<open>Deleting a product\<close>

lemma delete_products_eq:
  "delete_products pid d =
     (Inr (),
      d\<lparr>sale_items := filter (\<lambda>si. si_product_id si \<noteq> pid) (sale_items d),
        withdrawals := filter (\<lambda>w. w_product_id w \<noteq> Some pid) (withdrawals d),
        stock_arrivals := filter (\<lambda>a. sa_product_id a \<noteq> Some pid) (stock_arrivals d),
        products := filter (\<lambda>p. p_id p \<noteq> pid) (products d),
        sales :=
          filter (\<lambda>s. s_id s \<in> set (map si_sale_id
                                   (filter (\<lambda>si. si_product_id si \<noteq> pid) (sale_items d))))
            (sales d)\<rparr>)"
proof -
  let ?d3 = "delete_stock_arrivals_of_product pid
               (delete_withdrawals_of_product pid (delete_sale_items_of_product pid d))"
  have "\<not> product_referenced ?d3 pid"
    by (auto simp: product_referenced_def delete_stock_arrivals_of_product_def
        delete_withdrawals_of_product_def delete_sale_items_of_product_def)
  then have "delete_product_row pid ?d3 =
      Inr (?d3\<lparr>products := filter (\<lambda>p. p_id p \<noteq> pid) (products ?d3)\<rparr>)"
    by (simp add: delete_product_row_def)
  then show ?thesis
    by (simp add: delete_products_def transaction_def delete_products_tx_def Let_def
        delete_empty_sales_def delete_stock_arrivals_of_product_def
        delete_withdrawals_of_product_def delete_sale_items_of_product_def)
qed

text \<open>
  C5. \<^verbatim>\<open>DELETE /api/products/:id\<close> always succeeds (the rows that refer to the product
  are deleted before the product, so the foreign keys never refuse it). Afterwards the
  \<^verbatim>\<open>sale_items\<close>, \<^verbatim>\<open>withdrawals\<close> and \<^verbatim>\<open>stock_arrivals\<close> tables are the old ones
  without the rows of that product, so no row refers to it; no product row has the id;
  and the sales kept are exactly the old sales that still have an item, so no sale
  without items is left.
\<close>

theorem delete_products_effect:
  "\<exists>d'. delete_products pid d = (Inr (), d')
       \<and> sale_items d' = filter (\<lambda>si. si_product_id si \<noteq> pid) (sale_items d)
       \<and> withdrawals d' = filter (\<lambda>w. w_product_id w \<noteq> Some pid) (withdrawals d)
       \<and> stock_arrivals d' = filter (\<lambda>a. sa_product_id a \<noteq> Some pid) (stock_arrivals d)
       \<and> products d' = filter (\<lambda>p. p_id p \<noteq> pid) (products d)
       \<and> sales d' = filter (\<lambda>s. s_id s \<in> set (map si_sale_id (sale_items d'))) (sales d)
       \<and> \<not> product_referenced d' pid
       \<and> \<not> product_exists d' pid
       \<and> filter (\<lambda>s. s_id s \<notin> set (map si_sale_id (sale_items d'))) (sales d') = []"
proof -
  let ?d' = "d\<lparr>sale_items := filter (\<lambda>si. si_product_id si \<noteq> pid) (sale_items d),
        withdrawals := filter (\<lambda>w. w_product_id w \<noteq> Some pid) (withdrawals d),
        stock_arrivals := filter (\<lambda>a. sa_product_id a \<noteq> Some pid) (stock_arrivals d),
        products := filter (\<lambda>p. p_id p \<noteq> pid) (products d),
        sales :=
          filter (\<lambda>s. s_id s \<in> set (map si_sale_id
                                   (filter (\<lambda>si. si_product_id si \<noteq> pid) (sale_items d))))
            (sales d)\<rparr>"
  show ?thesis
  proof (rule exI [of _ ?d'], intro conjI)
    show "delete_products pid d = (Inr (), ?d')" by (rule delete_products_eq)
    show "sale_items ?d' = filter (\<lambda>si. si_product_id si \<noteq> pid) (sale_items d)" by simp
    show "withdrawals ?d' = filter (\<lambda>w. w_product_id w \<noteq> Some pid) (withdrawals d)" by simp
    show "stock_arrivals ?d' = filter (\<lambda>a. sa_product_id a \<noteq> Some pid) (stock_arrivals d)"
      by simp
    show "products ?d' = filter (\<lambda>p. p_id p \<noteq> pid) (products d)" by simp
    show "sales ?d' = filter (\<lambda>s. s_id s \<in> set (map si_sale_id (sale_items ?d'))) (sales d)"
      by simp
    show "\<not> product_referenced ?d' pid"
      by (auto simp: product_referenced_def)
    show "\<not> product_exists ?d' pid"
      by (auto simp: product_exists_def)
    show "filter (\<lambda>s. s_id s \<notin> set (map si_sale_id (sale_items ?d'))) (sales ?d') = []"
      by (auto simp: filter_empty_conv)
  qed
qed

text \<open>The theorem at product 1 of the shop after trading: sale 2, which sold only
  product 1, goes; sale 1 keeps its item of product 3.\<close>

theorem delete_products_effect_witness:
  "product_exists traded_db 1 \<and> product_referenced traded_db 1 \<and>
   map s_id (sales traded_db) = [1, 2] \<and>
   (\<exists>d'. delete_products 1 traded_db = (Inr (), d')
       \<and> map si_id (sale_items d') = [2]
       \<and> withdrawals d' = [] \<and> stock_arrivals d' = []
       \<and> map p_id (products d') = [2, 3, 4]
       \<and> map s_id (sales d') = [1])"
proof -
  from delete_products_effect [of 1 traded_db] obtain d' where
    del: "delete_products 1 traded_db = (Inr (), d')"
    and si: "sale_items d' = filter (\<lambda>si. si_product_id si \<noteq> 1) (sale_items traded_db)"
    and w: "withdrawals d' = filter (\<lambda>w. w_product_id w \<noteq> Some 1) (withdrawals traded_db)"
    and sa: "stock_arrivals d' =
               filter (\<lambda>a. sa_product_id a \<noteq> Some 1) (stock_arrivals traded_db)"
    and ps: "products d' = filter (\<lambda>p. p_id p \<noteq> 1) (products traded_db)"
    and ss: "sales d' =
               filter (\<lambda>s. s_id s \<in> set (map si_sale_id (sale_items d'))) (sales traded_db)"
    by blast
  have si': "map si_id (sale_items d') = [2]" "map si_sale_id (sale_items d') = [1]"
    unfolding si by (simp_all add: traded_db_eq)
  have "\<exists>d'. delete_products 1 traded_db = (Inr (), d')
       \<and> map si_id (sale_items d') = [2]
       \<and> withdrawals d' = [] \<and> stock_arrivals d' = []
       \<and> map p_id (products d') = [2, 3, 4]
       \<and> map s_id (sales d') = [1]"
  proof (rule exI [of _ d'], intro conjI)
    show "delete_products 1 traded_db = (Inr (), d')" by (rule del)
    show "map si_id (sale_items d') = [2]" by (rule si'(1))
    show "withdrawals d' = []" unfolding w by (simp add: traded_db_eq)
    show "stock_arrivals d' = []" unfolding sa by (simp add: traded_db_eq)
    show "map p_id (products d') = [2, 3, 4]" unfolding ps by (simp add: traded_db_eq)
    show "map s_id (sales d') = [1]" unfolding ss si'(2) by (simp add: traded_db_eq)
  qed
  moreover have "product_exists traded_db 1 \<and> product_referenced traded_db 1
      \<and> map s_id (sales traded_db) = [1, 2]"
    by (simp add: traded_db_eq product_exists_def product_referenced_def)
  ultimately show ?thesis by simp
qed

section \<open>The dashboard\<close>

lemma or_zero_sql_sum: "or_zero (sql_sum xs) = sum_list xs"
  by (simp add: or_zero_def sql_sum_def)

text \<open>
  C8. The \<^verbatim>\<open>totalProfit\<close> of \<^verbatim>\<open>GET /api/dashboard\<close> is the sum of \<^verbatim>\<open>total_profit\<close>
  over the sales created today minus the sum of \<^verbatim>\<open>amount\<close> over the withdrawals
  created today, of either type; a sum over no rows counts as 0, so a day without sales
  and withdrawals shows 0.
\<close>

theorem dashboard_total_profit:
  "totalProfit (get_dashboard now d) =
     sum_list (map s_total_profit
                 (filter (\<lambda>s. sql_date (s_created_at s) = sql_date now) (sales d)))
     - sum_list (map w_amount
                   (filter (\<lambda>w. sql_date (w_created_at w) = sql_date now) (withdrawals d)))
   \<and> (filter (\<lambda>s. sql_date (s_created_at s) = sql_date now) (sales d) = []
        \<and> filter (\<lambda>w. sql_date (w_created_at w) = sql_date now) (withdrawals d) = []
      \<longrightarrow> totalProfit (get_dashboard now d) = 0)"
  by (simp add: get_dashboard_def Let_def or_zero_sql_sum sales_today_def withdrawals_today_def)

text \<open>The theorem on the day of the trading (profits 180 and 160, one withdrawal of 220)
  and on the next day.\<close>

theorem dashboard_total_profit_witness:
  "totalProfit (get_dashboard 500 traded_db) = 120 \<and>
   filter (\<lambda>s. sql_date (s_created_at s) = sql_date 90000) (sales traded_db) = [] \<and>
   filter (\<lambda>w. sql_date (w_created_at w) = sql_date 90000) (withdrawals traded_db) = [] \<and>
   totalProfit (get_dashboard 90000 traded_db) = 0"
proof -
  have e: "filter (\<lambda>s. sql_date (s_created_at s) = sql_date 90000) (sales traded_db) = []
      \<and> filter (\<lambda>w. sql_date (w_created_at w) = sql_date 90000) (withdrawals traded_db) = []"
    by (simp add: traded_db_eq sql_date_def)
  from dashboard_total_profit [of 90000 traded_db] e
  have z: "totalProfit (get_dashboard 90000 traded_db) = 0"
    by blast
  from dashboard_total_profit [of 500 traded_db]
  have "totalProfit (get_dashboard 500 traded_db) =
     sum_list (map s_total_profit
                 (filter (\<lambda>s. sql_date (s_created_at s) = sql_date 500) (sales traded_db)))
     - sum_list (map w_amount
                   (filter (\<lambda>w. sql_date (w_created_at w) = sql_date 500) (withdrawals traded_db)))"
    by blast
  then have "totalProfit (get_dashboard 500 traded_db) = 120"
    by (simp add: traded_db_eq sql_date_def)
  with e z show ?thesis by simp
qed

section \<open>Atomicity\<close>




end
